theory Spec2Isabelle
  imports Main
begin

section \<open>Python values and errors\<close>

text \<open>
  The exceptions that the modelled functions can raise.  A function that can raise
  returns \<open>error + 'a\<close>, with \<open>Inl\<close> for the exception; \<open>raised\<close> reads the
  exception off a result.
\<close>

datatype error =
  ZeroDivisionError | KeyError | IndexError | AssertionError | ValueError | NotImplementedError

fun raised :: "error + 'a \<Rightarrow> error option" where
  "raised (Inl e) = Some e"
| "raised (Inr v) = None"

text \<open>
  A Python \<open>dict\<close> is an association list in insertion order with distinct keys:
  \<open>d[k]\<close> raises \<open>KeyError\<close> for a missing key, \<open>d.get(k, v)\<close> has a default,
  \<open>d[k] = v\<close> replaces the value of a key in place or appends a new key.
\<close>

definition dict_get :: "('k \<times> 'v) list \<Rightarrow> 'k \<Rightarrow> error + 'v" where
  "dict_get d k = (case map_of d k of None \<Rightarrow> Inl KeyError | Some v \<Rightarrow> Inr v)"

definition dict_get_default :: "('k \<times> 'v) list \<Rightarrow> 'k \<Rightarrow> 'v \<Rightarrow> 'v" where
  "dict_get_default d k v = (case map_of d k of None \<Rightarrow> v | Some w \<Rightarrow> w)"

fun dict_set :: "('k \<times> 'v) list \<Rightarrow> 'k \<Rightarrow> 'v \<Rightarrow> ('k \<times> 'v) list" where
  "dict_set [] k v = [(k, v)]"
| "dict_set ((k', v') # d) k v = (if k' = k then (k, v) # d else (k', v') # dict_set d k v)"

definition dict_keys :: "('k \<times> 'v) list \<Rightarrow> 'k list" where
  "dict_keys d = map fst d"

definition dict_values :: "('k \<times> 'v) list \<Rightarrow> 'v list" where
  "dict_values d = map snd d"

fun getitems :: "('k \<times> 'v) list \<Rightarrow> 'k list \<Rightarrow> error + 'v list" where
  "getitems d [] = Inr []"
| "getitems d (k # ks) =
     (case dict_get d k of
        Inl e \<Rightarrow> Inl e
      | Inr v \<Rightarrow> (case getitems d ks of Inl e \<Rightarrow> Inl e | Inr vs \<Rightarrow> Inr (v # vs)))"

text \<open>
  \<open>xs[i]\<close> on a list or a string: a negative index counts from the end, an index out
  of range raises \<open>IndexError\<close>.  \<open>xs.pop(i)\<close> removes the element at \<open>i\<close>.
\<close>

definition getitem :: "'a list \<Rightarrow> int \<Rightarrow> error + 'a" where
  "getitem xs i =
     (if 0 \<le> i \<and> i < int (length xs) then Inr (xs ! nat i)
      else if i < 0 \<and> - int (length xs) \<le> i then Inr (xs ! nat (int (length xs) + i))
      else Inl IndexError)"

definition pop :: "'a list \<Rightarrow> nat \<Rightarrow> 'a list" where
  "pop xs i = take i xs @ drop (Suc i) xs"

text \<open>
  A list comprehension whose condition can raise: the first exception ends it.
\<close>

fun filter_err :: "('a \<Rightarrow> error + bool) \<Rightarrow> 'a list \<Rightarrow> error + 'a list" where
  "filter_err p [] = Inr []"
| "filter_err p (x # xs) =
     (case p x of
        Inl e \<Rightarrow> Inl e
      | Inr b \<Rightarrow>
         (case filter_err p xs of
            Inl e \<Rightarrow> Inl e
          | Inr ys \<Rightarrow> Inr (if b then x # ys else ys)))"

section \<open>Strings and the regular expressions of the parser\<close>

text \<open>
  Strings are ASCII here (\<open>char\<close> is a byte).  \<open>isalpha\<close> is the class \<open>[a-zA-Z]\<close>,
  \<open>isdigit\<close> the class \<open>\d\<close>, \<open>upper\<close> is \<open>str.upper\<close>.
\<close>

definition isalpha :: "char \<Rightarrow> bool" where
  "isalpha c = (let n = (of_char c :: nat) in (65 \<le> n \<and> n \<le> 90) \<or> (97 \<le> n \<and> n \<le> 122))"

definition isdigit :: "char \<Rightarrow> bool" where
  "isdigit c = (let n = (of_char c :: nat) in 48 \<le> n \<and> n \<le> 57)"

definition upper :: "string \<Rightarrow> string" where
  "upper s =
     map (\<lambda>c. let n = (of_char c :: nat) in if 97 \<le> n \<and> n \<le> 122 then char_of (n - 32) else c) s"

definition int_of_digits :: "string \<Rightarrow> int" where
  "int_of_digits ds = foldl (\<lambda>acc c. 10 * acc + (int (of_char c) - 48)) 0 ds"

definition replace_char :: "char \<Rightarrow> string \<Rightarrow> string \<Rightarrow> string" where
  "replace_char c new s = concat (map (\<lambda>x. if x = c then new else [x]) s)"

text \<open>
  \<open>re.findall("[...]+", s)\<close> for a character class: the maximal runs of characters of
  the class, from left to right.
\<close>

function findall_runs :: "(char \<Rightarrow> bool) \<Rightarrow> string \<Rightarrow> string list" where
  "findall_runs P [] = []"
| "findall_runs P (c # cs) =
     (if P c then takeWhile P (c # cs) # findall_runs P (dropWhile P cs)
      else findall_runs P cs)"
  by pat_completeness auto
termination
  by (relation "measure (\<lambda>(P, s). length s)") (auto simp: length_dropWhile_le less_Suc_eq_le)

text \<open>
  \<open>s.index(sub)\<close>: the position of the first occurrence of \<open>sub\<close>, \<open>ValueError\<close> when
  there is none.
\<close>

fun str_index :: "string \<Rightarrow> string \<Rightarrow> error + nat" where
  "str_index [] sub = (if sub = [] then Inr 0 else Inl ValueError)"
| "str_index (c # cs) sub =
     (if take (length sub) (c # cs) = sub then Inr 0
      else (case str_index cs sub of Inl e \<Rightarrow> Inl e | Inr i \<Rightarrow> Inr (Suc i)))"

text \<open>
  \<open>re.findall("(\d+)(?=\*" + val + ")", s)\<close>: the runs of digits that stand right before
  \<open>*val\<close>.  A match starts at the first digit from which the greedy run of digits is
  followed by \<open>*val\<close> (a shorter run is followed by a digit, so backtracking finds
  nothing more); the search goes on after the digits.
\<close>

function findall_scaling :: "string \<Rightarrow> string \<Rightarrow> string list" where
  "findall_scaling val [] = []"
| "findall_scaling val (c # cs) =
     (if isdigit c \<and> take (Suc (length val)) (dropWhile isdigit cs) = CHR ''*'' # val
      then takeWhile isdigit (c # cs) # findall_scaling val (dropWhile isdigit cs)
      else findall_scaling val cs)"
  by pat_completeness auto
termination
  by (relation "measure (\<lambda>(val, s). length s)") (auto simp: length_dropWhile_le less_Suc_eq_le)

section \<open>Overlap-size arithmetic: \<open>LayerNode.calc_pr_dimension_size\<close>\<close>

text \<open>
  \<^verbatim>\<open>
  @staticmethod
  def calc_pr_dimension_size(sa: int, A: int, sb: int, B: int):
      return int(A * B - max(0, B - (sa / gcd(sa, sb))) * (A - (sb / gcd(sa, sb))))
  \<close>
  \<open>math.gcd\<close> is the non-negative greatest common divisor, as \<open>gcd\<close> on \<open>int\<close> is;
  it is \<open>0\<close> only for \<open>gcd(0, 0)\<close>, and then the division raises
  \<open>ZeroDivisionError\<close>.  The source divides with \<open>/\<close>, which gives a binary64
  float; both quotients are integers (the divisor divides the dividend), so the
  model takes the exact quotient, and \<open>int\<close> of the integral float is the integer
  itself.  The model is the source wherever binary64 holds every intermediate value
  exactly; \<open>binary64_exact\<close> below says where that is.
\<close>

definition calc_pr_dimension_size :: "int \<Rightarrow> int \<Rightarrow> int \<Rightarrow> int \<Rightarrow> error + int" where
  "calc_pr_dimension_size sa A sb B =
     (if gcd sa sb = 0 then Inl ZeroDivisionError
      else Inr (A * B - max 0 (B - sa div gcd sa sb) * (A - sb div gcd sa sb)))"

text \<open>
  Binary64 represents every integer of magnitude up to \<open>2^53\<close>, and its operations
  are exact when the exact result is representable.  Within this range the float
  arithmetic of the source is the integer arithmetic of the model.
\<close>

definition binary64_exact :: "int \<Rightarrow> int \<Rightarrow> int \<Rightarrow> int \<Rightarrow> bool" where
  "binary64_exact sa A sb B =
     (let g = gcd sa sb; x = B - sa div g; y = A - sb div g
      in list_all (\<lambda>v. \<bar>v\<bar> \<le> 2 ^ 53)
           [sa div g, sb div g, A, B, x, y, max 0 x * y, A * B, A * B - max 0 x * y])"

text \<open>
  The contract in the words of the docstring and of the specification: the number of
  distinct values of \<open>sa * a + sb * b\<close> for \<open>a\<close> in \<open>range(0, A)\<close> and \<open>b\<close> in
  \<open>range(0, B)\<close>.
\<close>

definition count_unique :: "int \<Rightarrow> int \<Rightarrow> int \<Rightarrow> int \<Rightarrow> nat" where
  "count_unique sa A sb B = card ((\<lambda>(a, b). sa * a + sb * b) ` ({0..<A} \<times> {0..<B}))"

section \<open>Partially relevant dimensions: \<open>LayerNode.extract_pr_loop_info\<close>\<close>

type_synonym LayerDimSizes = "(string \<times> int) list"
type_synonym PrLoop = "(string \<times> string list) list"
type_synonym LoopList = "string list"
type_synonym PrScalingFactors = "(string \<times> (string \<times> int) list) list"

text \<open>
  The inner loop of \<open>extract_pr_loop_info\<close> over the two right-hand dimensions of a
  relation such as \<open>ix=1*ox+1*fx\<close>:
  \<^verbatim>\<open>
  for val_lower in relation_disassembly[1:]:
      if relation[relation.index(val_lower) - 1] == "*":
          if not relation[relation.index(val_lower) - 2].isdigit():
              raise NotImplementedError(...)
          else:
              scaling_factors[val_lower] = int(
                  re.findall("(\\d+)(?=\\*" + val_lower + ")", relation)[0])
      else:
          scaling_factors[val_lower] = 1
  \<close>
\<close>

fun scaling_factors_of ::
  "string \<Rightarrow> string list \<Rightarrow> (string \<times> int) list \<Rightarrow> error + (string \<times> int) list" where
  "scaling_factors_of relation [] scaling_factors = Inr scaling_factors"
| "scaling_factors_of relation (val_lower # vals) scaling_factors =
     (case str_index relation val_lower of
        Inl e \<Rightarrow> Inl e
      | Inr i \<Rightarrow>
         (case getitem relation (int i - 1) of
            Inl e \<Rightarrow> Inl e
          | Inr c1 \<Rightarrow>
             if c1 = CHR ''*'' then
               (case getitem relation (int i - 2) of
                  Inl e \<Rightarrow> Inl e
                | Inr c2 \<Rightarrow>
                   if \<not> isdigit c2 then Inl NotImplementedError
                   else (case findall_scaling val_lower relation of
                           [] \<Rightarrow> Inl IndexError
                         | m # _ \<Rightarrow>
                            scaling_factors_of relation vals
                              (dict_set scaling_factors val_lower (int_of_digits m))))
             else scaling_factors_of relation vals (dict_set scaling_factors val_lower 1)))"

text \<open>
  The loop over the relations.  A relation has exactly three runs of letters (the key
  and its two generator dimensions) and, after the inner loop, two scaling factors;
  otherwise an assertion fails.  The keys of \<open>pr_loop\<close> are in upper case, the keys of
  the scaling factors are as the relation writes them.
\<close>

fun extract_pr_loop_info_from ::
  "string list \<Rightarrow> PrLoop \<times> LoopList \<times> PrScalingFactors
   \<Rightarrow> error + PrLoop \<times> LoopList \<times> PrScalingFactors" where
  "extract_pr_loop_info_from [] st = Inr st"
| "extract_pr_loop_info_from (relation # rest) (pr_loop, pr_loop_list, pr_scaling_factors) =
     (case findall_runs isalpha relation of
        [k, v1, v2] \<Rightarrow>
          (case scaling_factors_of relation [v1, v2] [] of
             Inl e \<Rightarrow> Inl e
           | Inr scaling_factors \<Rightarrow>
               if length scaling_factors \<noteq> 2 then Inl AssertionError
               else extract_pr_loop_info_from rest
                      (dict_set pr_loop (upper k) [upper v1, upper v2],
                       pr_loop_list @ [upper k, upper v1, upper v2],
                       dict_set pr_scaling_factors (upper k) scaling_factors))
      | _ \<Rightarrow> Inl AssertionError)"

definition extract_pr_loop_info ::
  "string list \<Rightarrow> error + PrLoop \<times> LoopList \<times> PrScalingFactors" where
  "extract_pr_loop_info equation_relations =
     extract_pr_loop_info_from equation_relations ([], [], [])"

section \<open>Relevant and irrelevant dimensions: \<open>LayerNode.extract_r_ir_loop_info\<close>\<close>

text \<open>
  The value of \<open>operand_loop_dim[operand]\<close>: the lists under \<open>Relevancy.R\<close> and
  \<open>Relevancy.IR\<close> and the dictionary under \<open>Relevancy.PR\<close>.
\<close>

record operand_loops =
  loops_R :: LoopList
  loops_IR :: LoopList
  loops_PR :: PrLoop

type_synonym OperandLoopDims = "(string \<times> operand_loops) list"
type_synonym OperandDimOrder = "(string \<times> LoopList) list"

text \<open>The class \<open>[a-zA-Z,0-9,=,*,+]\<close> of the tokens of an equation.\<close>

definition equation_char :: "char \<Rightarrow> bool" where
  "equation_char c = (isalpha c \<or> isdigit c \<or> c \<in> set '',=*+'')"

text \<open>
  \<^verbatim>\<open>
  prev_char = None
  for i, char in enumerate(equation_disassembly):
      if (char == "=" or char == "+") and prev_char == "+":
          equation_disassembly.pop(i - 1)
      prev_char = char
  \<close>
  The list is changed while it is iterated: after a \<open>pop\<close> the iterator, which goes by
  position, steps over the element that moved into position \<open>i\<close>.
\<close>

function merge_plus :: "nat \<Rightarrow> string option \<Rightarrow> string list \<Rightarrow> string list" where
  "merge_plus i prev_char equation_disassembly =
     (if i < length equation_disassembly then
        (let char = equation_disassembly ! i
         in merge_plus (Suc i) (Some char)
              (if (char = ''='' \<or> char = ''+'') \<and> prev_char = Some ''+''
               then pop equation_disassembly (i - 1) else equation_disassembly))
      else equation_disassembly)"
  by pat_completeness auto
termination
  by (relation "measure (\<lambda>(i, p, xs). length xs - i)") (auto simp: pop_def Let_def)

definition size_not_1 :: "LayerDimSizes \<Rightarrow> string \<Rightarrow> error + bool" where
  "size_not_1 loop_dim_size loop =
     (case dict_get loop_dim_size loop of Inl e \<Rightarrow> Inl e | Inr n \<Rightarrow> Inr (n \<noteq> 1))"

text \<open>
  The body of the loop over the operands, for the dimensions \<open>r_loop_list\<close> of one
  operand's term:
  \<^verbatim>\<open>
  ir_loop_list = list(set(dimension_list).difference(r_loop_list))
  pr_loop_remove_flag = any(loop in pr_loop for loop in r_loop_list)
  if pr_loop_remove_flag:
      #  and loop_dim_size[loop] != 1]
      operand_loop_dim[operand][Relevancy.R] = [
          loop for loop in r_loop_list if loop not in pr_loop_list]
      operand_loop_dim[operand][Relevancy.IR] = [
          loop for loop in ir_loop_list
          if loop not in pr_loop_list and loop_dim_size[loop] != 1]
      operand_loop_dim[operand][Relevancy.PR] = pr_loop
  else:
      operand_loop_dim[operand][Relevancy.R] = [
          loop for loop in r_loop_list if loop_dim_size[loop] != 1]
      operand_loop_dim[operand][Relevancy.IR] = [
          loop for loop in ir_loop_list if loop_dim_size[loop] != 1]
      operand_loop_dim[operand][Relevancy.PR] = {}
  \<close>
  The order of \<open>ir_loop_list\<close> is that of a Python set, which the source leaves open;
  the model takes the order of \<open>dimension_list\<close>.
\<close>

definition classify_operand ::
  "LayerDimSizes \<Rightarrow> PrLoop \<Rightarrow> LoopList \<Rightarrow> LoopList \<Rightarrow> error + operand_loops" where
  "classify_operand loop_dim_size pr_loop pr_loop_list r_loop_list =
     (let dimension_list = dict_keys loop_dim_size;
          ir_loop_list = filter (\<lambda>d. d \<notin> set r_loop_list) (remdups dimension_list);
          pr_loop_remove_flag = list_ex (\<lambda>loop. loop \<in> set (dict_keys pr_loop)) r_loop_list
      in if pr_loop_remove_flag then
           (case filter_err (\<lambda>loop. if loop \<in> set pr_loop_list then Inr False
                                      else size_not_1 loop_dim_size loop) ir_loop_list of
              Inl e \<Rightarrow> Inl e
            | Inr ir \<Rightarrow>
                Inr \<lparr>loops_R = filter (\<lambda>loop. loop \<notin> set pr_loop_list) r_loop_list,
                     loops_IR = ir, loops_PR = pr_loop\<rparr>)
         else
           (case filter_err (size_not_1 loop_dim_size) r_loop_list of
              Inl e \<Rightarrow> Inl e
            | Inr r \<Rightarrow>
               (case filter_err (size_not_1 loop_dim_size) ir_loop_list of
                  Inl e \<Rightarrow> Inl e
                | Inr ir \<Rightarrow> Inr \<lparr>loops_R = r, loops_IR = ir, loops_PR = []\<rparr>)))"

text \<open>
  The loop over the split locations; \<open>begin_idx\<close> is where the operand's term starts:
  \<^verbatim>\<open>
  for split_loc in split_location:
      operand = equation_disassembly[begin_idx]
      operand_list.append(operand)
      operand_loop_dim[operand] = {}
      r_loop_list = [loop_dim.upper()
                     for loop_dim in equation_disassembly[begin_idx + 1 : split_loc]]
      ...
      begin_idx = split_loc + 1
      operand_dimensionality_order[operand] = r_loop_list
  \<close>
\<close>

fun operands_from ::
  "string list \<Rightarrow> LayerDimSizes \<Rightarrow> PrLoop \<Rightarrow> LoopList \<Rightarrow> nat list \<Rightarrow> nat
   \<Rightarrow> OperandLoopDims \<times> string list \<times> OperandDimOrder
   \<Rightarrow> error + OperandLoopDims \<times> string list \<times> OperandDimOrder" where
  "operands_from equation_disassembly loop_dim_size pr_loop pr_loop_list [] begin_idx st = Inr st"
| "operands_from equation_disassembly loop_dim_size pr_loop pr_loop_list (split_loc # locs) begin_idx
     (operand_loop_dim, operand_list, operand_dimensionality_order) =
     (case getitem equation_disassembly (int begin_idx) of
        Inl e \<Rightarrow> Inl e
      | Inr operand \<Rightarrow>
         (let r_loop_list = map upper (drop (Suc begin_idx) (take split_loc equation_disassembly))
          in case classify_operand loop_dim_size pr_loop pr_loop_list r_loop_list of
               Inl e \<Rightarrow> Inl e
             | Inr loops \<Rightarrow>
                 operands_from equation_disassembly loop_dim_size pr_loop pr_loop_list locs (Suc split_loc)
                   (dict_set operand_loop_dim operand loops,
                    operand_list @ [operand],
                    dict_set operand_dimensionality_order operand r_loop_list)))"

text \<open>
  \<open>operand_loop_dim_reform\<close>: the relevant and irrelevant lists, with the keys of
  \<open>pr_loop\<close> added under the suffixes \<open>_r\<close> and \<open>_ir\<close> for an operand that has
  partially relevant dimensions.
\<close>

definition reform :: "PrLoop \<Rightarrow> operand_loops \<Rightarrow> LoopList \<times> LoopList" where
  "reform pr_loop dic =
     (if loops_PR dic \<noteq> []
      then (loops_R dic @ map (\<lambda>pr_data_dim. pr_data_dim @ ''_r'') (dict_keys pr_loop),
            loops_IR dic @ map (\<lambda>pr_data_dim. pr_data_dim @ ''_ir'') (dict_keys pr_loop))
      else (loops_R dic, loops_IR dic))"

text \<open>
  The function returns \<open>operand_loop_dim\<close>, \<open>operand_loop_dim_reform\<close>,
  \<open>operand_list\<close> and \<open>operand_dimensionality_order\<close>.
\<close>

definition extract_r_ir_loop_info ::
  "string \<Rightarrow> LayerDimSizes \<Rightarrow> PrLoop \<Rightarrow> LoopList
   \<Rightarrow> error + OperandLoopDims \<times> (string \<times> LoopList \<times> LoopList) list \<times> string list
              \<times> OperandDimOrder" where
  "extract_r_ir_loop_info equation loop_dim_size pr_loop pr_loop_list =
     (let equation1 = replace_char CHR ''+'' '' + ''
                        (replace_char CHR ''='' '' = '' (replace_char CHR ''*'' '' * '' equation));
          equation_disassembly = merge_plus 0 None (findall_runs equation_char equation1);
          split_location =
            map fst (filter (\<lambda>(i, x). x \<in> set [''='', ''*'', ''+''])
                       (zip [0..<length equation_disassembly] equation_disassembly))
            @ [length equation_disassembly]
      in case operands_from equation_disassembly loop_dim_size pr_loop pr_loop_list split_location 0
                ([], [], []) of
           Inl e \<Rightarrow> Inl e
         | Inr (operand_loop_dim, operand_list, operand_dimensionality_order) \<Rightarrow>
             Inr (operand_loop_dim,
                  map (\<lambda>(operand, dic). (operand, reform pr_loop dic)) operand_loop_dim,
                  operand_list, operand_dimensionality_order))"

section \<open>The layer: \<open>LayerNode\<close>\<close>

text \<open>
  The attributes of a \<open>LayerNode\<close> that the modelled methods read.  A spatial mapping
  gives, for the name of a dimension of the operational array, the unrolled layer
  dimensions with their factors; \<open>layer_attrs\<close> keeps the string attributes of the
  layer's definition.
\<close>

type_synonym SpatialMapping = "(string \<times> (string \<times> int) list) list"

record LayerNode =
  id_layer :: int
  name_layer :: string
  layer_attrs :: "(string \<times> string) list"
  loop_dim_size :: LayerDimSizes
  padding :: "(string \<times> int list) list"
  pr_loop :: PrLoop
  pr_scaling_factors :: PrScalingFactors
  pr_loop_dim_size :: LayerDimSizes
  operand_loop_dim :: OperandLoopDims
  input_operands :: "string list"
  constant_operands :: "string list"
  core_allocation :: "int option"
  memory_operand_links :: "(string \<times> string) list"
  user_spatial_mapping :: SpatialMapping

text \<open>
  \<^verbatim>\<open>
  def calc_pr_dimension_size_total(self, dim: LayerDimStr) -> int:
      related_dimension_sizes = [self.loop_dim_size[related_dim]
                                 for related_dim in self.pr_loop[dim]]
      scaling_factors = list(self.pr_scaling_factors[dim].values())
      assert len(related_dimension_sizes) == len(scaling_factors) == 2
      args = (val for pair in zip(scaling_factors, related_dimension_sizes) for val in pair)
      total_pr_dim_size = self.calc_pr_dimension_size(*args)
      padding = self.padding.get(dim, (0, 0))  # default = (0, 0)
      total_pr_dim_size_without_padding = int(total_pr_dim_size - sum(padding))
      return total_pr_dim_size_without_padding
  \<close>
  The padding of a dimension is a tuple, here a list of integers.
\<close>

definition calc_pr_dimension_size_total :: "LayerNode \<Rightarrow> string \<Rightarrow> error + int" where
  "calc_pr_dimension_size_total self dim =
     (case dict_get (pr_loop self) dim of
        Inl e \<Rightarrow> Inl e
      | Inr related_dims \<Rightarrow>
         (case getitems (loop_dim_size self) related_dims of
            Inl e \<Rightarrow> Inl e
          | Inr related_dimension_sizes \<Rightarrow>
             (case dict_get (pr_scaling_factors self) dim of
                Inl e \<Rightarrow> Inl e
              | Inr factors \<Rightarrow>
                 (case (dict_values factors, related_dimension_sizes) of
                    ([sa, sb], [A, B]) \<Rightarrow>
                      (case calc_pr_dimension_size sa A sb B of
                         Inl e \<Rightarrow> Inl e
                       | Inr total_pr_dim_size \<Rightarrow>
                           Inr (total_pr_dim_size
                                - sum_list (dict_get_default (padding self) dim [0, 0])))
                  | _ \<Rightarrow> Inl AssertionError))))"

text \<open>
  The constructor, for a layer without \<open>pr_loop_dim_size\<close> of its own:
  \<^verbatim>\<open>
  if self.pr_loop_dim_size is None or len(self.pr_loop_dim_size) == 0:
      self.pr_loop_dim_size = {dim: self.calc_pr_dimension_size_total(dim) for dim in pr_loop}
  \<close>
\<close>

fun calc_pr_dimension_size_totals :: "LayerNode \<Rightarrow> string list \<Rightarrow> error + LayerDimSizes" where
  "calc_pr_dimension_size_totals self [] = Inr []"
| "calc_pr_dimension_size_totals self (dim # dims) =
     (case calc_pr_dimension_size_total self dim of
        Inl e \<Rightarrow> Inl e
      | Inr n \<Rightarrow>
         (case calc_pr_dimension_size_totals self dims of
            Inl e \<Rightarrow> Inl e
          | Inr rest \<Rightarrow> Inr ((dim, n) # rest)))"

definition init_pr_loop_dim_size :: "LayerNode \<Rightarrow> LayerDimSizes option \<Rightarrow> error + LayerDimSizes" where
  "init_pr_loop_dim_size self supplied =
     (case supplied of
        None \<Rightarrow> calc_pr_dimension_size_totals self (dict_keys (pr_loop self))
      | Some given \<Rightarrow>
          if length given = 0 then calc_pr_dimension_size_totals self (dict_keys (pr_loop self))
          else Inr given)"

section \<open>The layer factory: \<open>LayerNodeFactory\<close>\<close>

text \<open>
  \<open>LayerOperand\<close> wraps the name of an operand.  Of the validated \<open>node_data\<close> the
  two methods read \<open>node_data["id"]\<close> and the dictionary \<open>node_data["operand_source"]\<close>.
  \<^verbatim>\<open>
  def create_constant_operands(self) -> list[LayerOperand]:
      operand_sources: dict[str, int] = self.node_data["operand_source"]
      constant_operands: list[str] = [
          op for op, source in operand_sources.items() if source == self.node_data["id"]]
      return [self.create_layer_operand(layer_op_str) for layer_op_str in constant_operands]

  def create_operand_source(self) -> InputOperandSource:
      operand_sources: dict[str, int] = self.node_data["operand_source"]
      return {self.create_layer_operand(layer_dim_str): source
              for layer_dim_str, source in operand_sources.items()
              if source != self.node_data["id"]}
  \<close>
\<close>

datatype LayerOperand = LayerOperand string

record node_data =
  id_node :: int
  operand_source :: "(string \<times> int) list"

definition create_layer_operand :: "string \<Rightarrow> LayerOperand" where
  "create_layer_operand name = LayerOperand name"

definition create_constant_operands :: "node_data \<Rightarrow> LayerOperand list" where
  "create_constant_operands nd =
     map create_layer_operand
       (map fst (filter (\<lambda>(op, source). source = id_node nd) (operand_source nd)))"

definition create_operand_source :: "node_data \<Rightarrow> (LayerOperand \<times> int) list" where
  "create_operand_source nd =
     map (\<lambda>(layer_dim_str, source). (create_layer_operand layer_dim_str, source))
       (filter (\<lambda>(layer_dim_str, source). source \<noteq> id_node nd) (operand_source nd))"

section \<open>The hardware description\<close>

text \<open>
  The classes of the hardware description are collaborators of the stages: the model
  keeps the attributes that the stages read.  A \<open>MemoryLevel\<close> refers to its
  \<open>MemoryInstance\<close> object; \<open>objects\<close> gives the object behind each reference, so that
  two levels built on one \<open>MemoryInstance\<close> share it.  The dimensions of the
  operational array and the dimensions a level serves are given by their names.
  \<open>get_inner_memories\<close> and \<open>get_core\<close> are methods of these collaborators: the first
  is kept as the list it returns, the second is the core with the given id, and an
  error when there is none.
\<close>

record MemoryInstance =
  name_mi :: string
  size_mi :: int

type_synonym port_alloc = "(string \<times> string option) list list"

record MemoryLevel =
  memory_instance :: nat
  operands :: "string list"
  port_alloc_raw :: port_alloc
  served_dimensions_vec :: "nat list list"
  served_dimensions :: "string list"

record MemoryHierarchy =
  name_mh :: string
  objects :: "nat \<Rightarrow> MemoryInstance"
  mem_level_list :: "MemoryLevel list"
  get_inner_memories :: "MemoryLevel list"

record OperationalArray =
  dimensions :: "string list"
  pe_type :: "string option"

record Core =
  id_core :: int
  operational_array :: OperationalArray
  memory_hierarchy :: MemoryHierarchy
  dataflows :: "string list"

record Accelerator =
  name_acc :: string
  cores :: "Core list"

definition get_core :: "Accelerator \<Rightarrow> int option \<Rightarrow> error + Core" where
  "get_core acc core_id =
     (case find (\<lambda>c. Some (id_core c) = core_id) (cores acc) of
        None \<Rightarrow> Inl ValueError
      | Some c \<Rightarrow> Inr c)"

text \<open>
  The adapted hardware description is built by constructor calls: a
  \<open>MemoryHierarchy(operational_array, name)\<close> that receives one \<open>add_memory\<close> call for
  each level, a \<open>Core\<close> around it and an \<open>Accelerator\<close> around the core.  The model
  keeps the arguments of these calls.  A stage works on the accelerator it was given
  or on an adapted one.
\<close>

record add_memory_call =
  memory_instance_arg :: MemoryInstance
  operands_arg :: "string list"
  port_alloc_arg :: port_alloc
  served_dimensions_arg :: "nat list"

record NewMemoryHierarchy =
  operational_array_new_mh :: OperationalArray
  name_new_mh :: string
  add_memory_calls :: "add_memory_call list"

record NewCore =
  id_new_core :: int
  operational_array_new_core :: OperationalArray
  memory_hierarchy_new_core :: NewMemoryHierarchy
  dataflows_new_core :: "string list"

record NewAccelerator =
  name_new_acc :: string
  core_set :: "NewCore list"

datatype accelerator_ref = Original Accelerator | Adapted NewAccelerator

section \<open>The diagonal-mapping adapter: \<open>modify_innermost_input_mem_size\<close>\<close>

text \<open>
  \<^verbatim>\<open>
  for memory_level in innermost_levels:
      mem_ops = memory_level.operands
      if layer_op_to_mem_op[act_operand] in mem_ops:
          act_innermost_mem_level = memory_level
          act_served_oa_dim: set = memory_level.served_dimensions
  \<close>
  The last innermost level that holds the activation operand stays assigned.
\<close>

fun find_act_level ::
  "(string \<times> string) list \<Rightarrow> string \<Rightarrow> MemoryLevel list \<Rightarrow> MemoryLevel option
   \<Rightarrow> error + MemoryLevel option" where
  "find_act_level layer_op_to_mem_op act_operand [] found = Inr found"
| "find_act_level layer_op_to_mem_op act_operand (memory_level # rest) found =
     (case dict_get layer_op_to_mem_op act_operand of
        Inl e \<Rightarrow> Inl e
      | Inr mem_op \<Rightarrow>
          find_act_level layer_op_to_mem_op act_operand rest
            (if mem_op \<in> set (operands memory_level) then Some memory_level else found))"

text \<open>
  \<^verbatim>\<open>
  mem_scaling_factor = 1
  ...
      for layer_dim, layer_size in act_served_oa_mapping.items():
          if layer_dim in weight_ir_layer_dims:
              mem_scaling_factor *= layer_size
  \<close>
\<close>

definition scale_by :: "LoopList \<Rightarrow> (string \<times> int) list \<Rightarrow> int" where
  "scale_by weight_ir_layer_dims act_served_oa_mapping =
     foldl (\<lambda>mem_scaling_factor (layer_dim, layer_size).
              if layer_dim \<in> set weight_ir_layer_dims then mem_scaling_factor * layer_size
              else mem_scaling_factor)
       1 act_served_oa_mapping"

text \<open>
  The loop that fills the new memory hierarchy.  It runs over the levels of the deep
  copy of the core's hierarchy; \<open>heap\<close> holds the \<open>MemoryInstance\<close> objects of that
  copy.  The size is multiplied in the object itself, and each level then passes a copy
  of its object, as it is at that moment, to \<open>add_memory\<close>:
  \<^verbatim>\<open>
  for curr_mem_level, memory_level in enumerate(memory_hierarchy.mem_level_list):
      memory_instance = memory_level.memory_instance
      if memory_level == act_innermost_mem_level:
          memory_instance.size *= mem_scaling_factor  # scale here. For others, keep them unchanged.
      operands = tuple(memory_level.operands)
      port_alloc = memory_level.port_alloc_raw
      served_dimensions_vec = memory_level.served_dimensions_vec
      assert len(served_dimensions_vec) >= 1
      served_dimensions = served_dimensions_vec[0]
      new_memory_instance = pickle_deepcopy(memory_instance)
      ...
      new_memory_hierarchy.add_memory(memory_instance=new_memory_instance,
          operands=new_operands, port_alloc=new_port_alloc,
          served_dimensions=new_served_dimensions)
  \<close>
  Two levels are equal when their attributes are; in a hierarchy whose levels differ
  from each other this is the identity of the level.
\<close>

fun add_memories ::
  "MemoryLevel \<Rightarrow> int \<Rightarrow> (nat \<Rightarrow> MemoryInstance) \<Rightarrow> MemoryLevel list
   \<Rightarrow> error + add_memory_call list" where
  "add_memories act_innermost_mem_level mem_scaling_factor heap [] = Inr []"
| "add_memories act_innermost_mem_level mem_scaling_factor heap (memory_level # rest) =
     (let r = memory_instance memory_level;
          heap' = (if memory_level = act_innermost_mem_level
                   then heap(r := (heap r)\<lparr>size_mi := size_mi (heap r) * mem_scaling_factor\<rparr>)
                   else heap)
      in case served_dimensions_vec memory_level of
           [] \<Rightarrow> Inl AssertionError
         | served # _ \<Rightarrow>
            (case add_memories act_innermost_mem_level mem_scaling_factor heap' rest of
               Inl e \<Rightarrow> Inl e
             | Inr calls \<Rightarrow>
                 Inr (\<lparr>memory_instance_arg = heap' r, operands_arg = operands memory_level,
                       port_alloc_arg = port_alloc_raw memory_level,
                       served_dimensions_arg = served\<rparr> # calls)))"

text \<open>
  The method of the stage, for the stage's accelerator \<open>acc\<close> and layer \<open>lay\<close>.  It
  returns the flag \<open>input_mem_size_updated\<close> with the accelerator to use.  The early
  returns of the source:
  \<^verbatim>\<open>
  if len(self.layer.constant_operands) > 1:
      return input_mem_size_updated, self.accelerator
  const_operand = self.layer.constant_operands[0]  # weight representation
  act_operand = [operand for operand in self.layer.input_operands
                 if operand != const_operand][0]
  weight_ir_layer_dims: list = self.layer.operand_loop_dim[const_operand][Relevancy.IR]
  ...
  if "act_served_oa_dim" not in locals() or len(act_served_oa_dim) != 1:
      return input_mem_size_updated, self.accelerator
  ...
  if act_served_oa_dim_name not in user_spatial_mapping:  # there is no sm loop
      pass
  ...
  if mem_scaling_factor == 1:
      return input_mem_size_updated, self.accelerator
  \<close>
\<close>

definition modify_innermost_input_mem_size ::
  "Accelerator \<Rightarrow> LayerNode \<Rightarrow> int option \<Rightarrow> SpatialMapping \<Rightarrow> error + bool \<times> accelerator_ref" where
  "modify_innermost_input_mem_size acc lay core_id usm =
     (case get_core acc core_id of
        Inl e \<Rightarrow> Inl e
      | Inr core \<Rightarrow>
         (let mh = memory_hierarchy core;
              innermost_levels = get_inner_memories mh;
              layer_op_to_mem_op = memory_operand_links lay
          in if length (constant_operands lay) > 1 then Inr (False, Original acc)
             else
              (case getitem (constant_operands lay) 0 of
                 Inl e \<Rightarrow> Inl e
               | Inr const_operand \<Rightarrow>
                  (case getitem (filter (\<lambda>operand. operand \<noteq> const_operand) (input_operands lay)) 0 of
                     Inl e \<Rightarrow> Inl e
                   | Inr act_operand \<Rightarrow>
                      (case dict_get (operand_loop_dim lay) const_operand of
                         Inl e \<Rightarrow> Inl e
                       | Inr dic \<Rightarrow>
                          (case find_act_level layer_op_to_mem_op act_operand innermost_levels None of
                             Inl e \<Rightarrow> Inl e
                           | Inr None \<Rightarrow> Inr (False, Original acc)
                           | Inr (Some act_innermost_mem_level) \<Rightarrow>
                              (case remdups (served_dimensions act_innermost_mem_level) of
                                 [act_served_oa_dim_name] \<Rightarrow>
                                   (let mem_scaling_factor =
                                          (case map_of usm act_served_oa_dim_name of
                                             None \<Rightarrow> 1
                                           | Some act_served_oa_mapping \<Rightarrow>
                                               scale_by (loops_IR dic) act_served_oa_mapping)
                                    in if mem_scaling_factor = 1 then Inr (False, Original acc)
                                       else
                                        (case add_memories act_innermost_mem_level mem_scaling_factor
                                                (objects mh) (mem_level_list mh) of
                                           Inl e \<Rightarrow> Inl e
                                         | Inr calls \<Rightarrow>
                                            Inr (True, Adapted
                                              \<lparr>name_new_acc = name_acc acc @ ''-supporting-diagonal-map'',
                                               core_set =
                                                 [\<lparr>id_new_core = id_core core,
                                                   operational_array_new_core = operational_array core,
                                                   memory_hierarchy_new_core =
                                                     \<lparr>operational_array_new_mh = operational_array core,
                                                      name_new_mh = name_mh mh @ ''-supporting-diagonal-map'',
                                                      add_memory_calls = calls\<rparr>,
                                                   dataflows_new_core = dataflows core\<rparr>]\<rparr>)))
                               | _ \<Rightarrow> Inr (False, Original acc))))))))"

text \<open>The sizes that the adapted hierarchy gives its levels, with the levels' operands.\<close>

fun adapted_sizes :: "error + bool \<times> accelerator_ref \<Rightarrow> (string list \<times> int) list list" where
  "adapted_sizes (Inr (updated, Adapted a)) =
     map (\<lambda>c. map (\<lambda>m. (operands_arg m, size_mi (memory_instance_arg m)))
                (add_memory_calls (memory_hierarchy_new_core c))) (core_set a)"
| "adapted_sizes (Inr (updated, Original a)) = []"
| "adapted_sizes (Inl e) = []"

section \<open>The stage of the spatial mappings: \<open>SpatialMappingGeneratorStage.run\<close>\<close>

text \<open>
  A cost model evaluation carries the accelerator it was made for.  The stage has two
  collaborators: \<open>generator\<close> is \<open>UserSpatialMappingGenerator(...).run()\<close>, drained into a
  list, and \<open>conversion\<close> is the run of the \<open>SpatialMappingConversionStage\<close> made for
  an accelerator and a copy of the layer.
\<close>

record 'r CostModelEvaluation =
  accelerator_cme :: accelerator_ref
  evaluation :: 'r

record SpatialMappingGeneratorStage =
  accelerator :: Accelerator
  layer :: LayerNode
  enable_mix_spatial_mapping_generation :: bool
  maximize_hardware_utilization :: bool
  enable_weight_diagonal_mapping :: bool

definition check_layer :: "LayerNode option \<Rightarrow> error + bool" where
  "check_layer lay =
     (case lay of
        None \<Rightarrow> Inl ValueError
      | Some l \<Rightarrow> if core_allocation l = None then Inl ValueError else Inr True)"

text \<open>
  \<^verbatim>\<open>
  if all(map(lambda x: x in user_provided_spatial_mappings, oa_dims)):
      user_spatial_mappings = [user_provided_spatial_mappings]
  else:
      user_spatial_mapping_generator = UserSpatialMappingGenerator(
          layer=self.layer, accelerator=self.accelerator,
          provided_mapping=user_provided_spatial_mappings,
          enable_mix_spatial_mapping_generation=self.enable_mix_spatial_mapping_generation)
      user_spatial_mappings = [x for x in user_spatial_mapping_generator.run()]
  \<close>
\<close>

definition candidate_mappings ::
  "(LayerNode \<Rightarrow> Accelerator \<Rightarrow> SpatialMapping \<Rightarrow> bool \<Rightarrow> SpatialMapping list)
   \<Rightarrow> SpatialMappingGeneratorStage \<Rightarrow> Core \<Rightarrow> SpatialMapping list" where
  "candidate_mappings generator self core =
     (let user_provided_spatial_mappings = user_spatial_mapping (layer self);
          oa_dims = dimensions (operational_array core)
      in if list_all (\<lambda>x. x \<in> set (dict_keys user_provided_spatial_mappings)) oa_dims
         then [user_provided_spatial_mappings]
         else generator (layer self) (accelerator self) user_provided_spatial_mappings
                (enable_mix_spatial_mapping_generation self))"

text \<open>
  One launch is one pass of the loop over the candidates: the mapping, the accelerator
  and the layer given to the conversion stage, and what the pass yields.  The loop sets
  the mapping in the stage's layer, asks the adapter when
  \<open>enable_weight_diagonal_mapping\<close> is set, and puts the stage's own accelerator back
  into each evaluation made on an adapted one.  An exception of the adapter ends the
  run after the launches made so far.
\<close>

record ('r, 'x) launch =
  launched_mapping :: SpatialMapping
  launched_accelerator :: accelerator_ref
  launched_layer :: LayerNode
  yielded :: "('r CostModelEvaluation \<times> SpatialMapping \<times> 'x) list"

fun launch_all ::
  "(accelerator_ref \<Rightarrow> LayerNode \<Rightarrow> ('r CostModelEvaluation \<times> 'x) list)
   \<Rightarrow> SpatialMappingGeneratorStage \<Rightarrow> SpatialMapping list
   \<Rightarrow> ('r, 'x) launch list \<times> error option" where
  "launch_all conversion self [] = ([], None)"
| "launch_all conversion self (usm # rest) =
     (let lay = (layer self)\<lparr>user_spatial_mapping := usm\<rparr>;
          self1 = self\<lparr>layer := lay\<rparr>
      in case (if enable_weight_diagonal_mapping self
               then modify_innermost_input_mem_size (accelerator self) lay (core_allocation lay) usm
               else Inr (False, Original (accelerator self))) of
           Inl e \<Rightarrow> ([], Some e)
         | Inr (input_mem_size_updated, new_accelerator) \<Rightarrow>
            (let adapted = (enable_weight_diagonal_mapping self \<and> input_mem_size_updated);
                 used = (if adapted then new_accelerator else Original (accelerator self));
                 ys = map (\<lambda>(cme, extra_info).
                             (if adapted then cme\<lparr>accelerator_cme := Original (accelerator self)\<rparr>
                              else cme,
                              usm, extra_info))
                        (conversion used lay);
                 (launches, err) = launch_all conversion self1 rest
             in (\<lparr>launched_mapping = usm, launched_accelerator = used, launched_layer = lay,
                  yielded = ys\<rparr> # launches, err)))"

definition SpatialMappingGeneratorStage_run ::
  "(LayerNode \<Rightarrow> Accelerator \<Rightarrow> SpatialMapping \<Rightarrow> bool \<Rightarrow> SpatialMapping list)
   \<Rightarrow> (accelerator_ref \<Rightarrow> LayerNode \<Rightarrow> ('r CostModelEvaluation \<times> 'x) list)
   \<Rightarrow> SpatialMappingGeneratorStage \<Rightarrow> ('r, 'x) launch list \<times> error option" where
  "SpatialMappingGeneratorStage_run generator conversion self =
     (case get_core (accelerator self) (core_allocation (layer self)) of
        Inl e \<Rightarrow> ([], Some e)
      | Inr core \<Rightarrow> launch_all conversion self (candidate_mappings generator self core))"

section \<open>The stage of the workload: \<open>WorkloadStage.run\<close>\<close>













section \<open>Example layers, hardware and workloads\<close>

text \<open>
  A one-dimensional convolution with batch size 1: four output positions, a kernel of
  three, and the input position \<open>ix = 1*ox + 1*fx\<close>.  The attributes of \<open>conv_layer\<close>
  are what the constructor derives from the equation, the sizes and the relation.
\<close>

definition conv_relations :: "string list" where
  "conv_relations = [''ix=1*ox+1*fx'']"

definition conv_equation :: string where
  "conv_equation = ''O[b][k][ox]+=W[k][fx]*I[b][ix]''"

definition conv_sizes :: LayerDimSizes where
  "conv_sizes = [(''B'', 1), (''K'', 8), (''OX'', 4), (''FX'', 3)]"

definition conv_layer :: LayerNode where
  "conv_layer =
     \<lparr>id_layer = 0, name_layer = ''conv'', layer_attrs = [(''operator_type'', ''Conv'')],
      loop_dim_size = conv_sizes, padding = [],
      pr_loop = [(''IX'', [''OX'', ''FX''])],
      pr_scaling_factors = [(''IX'', [(''ox'', 1), (''fx'', 1)])],
      pr_loop_dim_size = [(''IX'', 6)],
      operand_loop_dim =
        [(''O'', \<lparr>loops_R = [''K'', ''OX''], loops_IR = [''FX''], loops_PR = []\<rparr>),
         (''W'', \<lparr>loops_R = [''K'', ''FX''], loops_IR = [''OX''], loops_PR = []\<rparr>),
         (''I'', \<lparr>loops_R = [''B''], loops_IR = [''K''],
                  loops_PR = [(''IX'', [''OX'', ''FX''])]\<rparr>)],
      input_operands = [''W'', ''I''], constant_operands = [''W''],
      core_allocation = Some 1,
      memory_operand_links = [(''O'', ''O''), (''W'', ''I2''), (''I'', ''I1'')],
      user_spatial_mapping = [(''D1'', [(''OX'', 4)])]\<rparr>"


definition add_layer :: LayerNode where
  "add_layer =
     conv_layer\<lparr>id_layer := 3, name_layer := ''add'',
       layer_attrs := [(''operator_type'', ''Add'')], input_operands := [''X'', ''Y''],
       constant_operands := []\<rparr>"

text \<open>
  The same convolution with stride 2 over two output positions and a kernel of three
  taps with dilation 3: the input position is \<open>ix = 2*ox + 3*fx\<close>.  The attributes
  \<open>pr_loop\<close> and \<open>pr_scaling_factors\<close> are what \<open>extract_pr_loop_info\<close> derives from
  the relation; the layer has no padding.
\<close>

definition dilated_relations :: "string list" where
  "dilated_relations = [''ix=2*ox+3*fx'']"

definition dilated_layer :: LayerNode where
  "dilated_layer =
     conv_layer\<lparr>id_layer := 5, name_layer := ''dilated'',
       loop_dim_size := [(''B'', 1), (''K'', 8), (''OX'', 2), (''FX'', 3)],
       pr_scaling_factors := [(''IX'', [(''ox'', 2), (''fx'', 3)])],
       pr_loop_dim_size := [(''IX'', 7)]\<rparr>"

text \<open>
  A core with a two-dimensional array.  The register files of the activations
  (\<open>I1\<close>, along \<open>D1\<close>) and of the weights (\<open>I2\<close>, along \<open>D2\<close>) are two levels built on
  one \<open>MemoryInstance\<close> object, reference 0; the buffer above them is reference 1.
\<close>

definition rf_1B :: MemoryInstance where
  "rf_1B = \<lparr>name_mi = ''rf_1B'', size_mi = 8\<rparr>"

definition sram_64KB :: MemoryInstance where
  "sram_64KB = \<lparr>name_mi = ''sram_64KB'', size_mi = 524288\<rparr>"

definition rw_port :: port_alloc where
  "rw_port =
     [[(''fh'', Some ''w_port_1''), (''tl'', Some ''r_port_1''), (''fl'', None), (''th'', None)]]"

definition level_I1 :: MemoryLevel where
  "level_I1 =
     \<lparr>memory_instance = 0, operands = [''I1''], port_alloc_raw = rw_port,
      served_dimensions_vec = [[1, 0]], served_dimensions = [''D1'']\<rparr>"

definition level_I2 :: MemoryLevel where
  "level_I2 =
     \<lparr>memory_instance = 0, operands = [''I2''], port_alloc_raw = rw_port,
      served_dimensions_vec = [[0, 1]], served_dimensions = [''D2'']\<rparr>"

definition level_sram :: MemoryLevel where
  "level_sram =
     \<lparr>memory_instance = 1, operands = [''I1'', ''I2'', ''O''],
      port_alloc_raw = rw_port @ rw_port @ rw_port,
      served_dimensions_vec = [[1, 1]], served_dimensions = [''D1'', ''D2'']\<rparr>"

definition shared_rf_core :: Core where
  "shared_rf_core =
     \<lparr>id_core = 1,
      operational_array = \<lparr>dimensions = [''D1'', ''D2''], pe_type = None\<rparr>,
      memory_hierarchy =
        \<lparr>name_mh = ''mh'', objects = (\<lambda>r. if r = 0 then rf_1B else sram_64KB),
         mem_level_list = [level_I1, level_I2, level_sram],
         get_inner_memories = [level_I1, level_I2]\<rparr>,
      dataflows = []\<rparr>"

definition shared_rf_accelerator :: Accelerator where
  "shared_rf_accelerator = \<lparr>name_acc = ''acc'', cores = [shared_rf_core]\<rparr>"

definition diagonal_mapping :: SpatialMapping where
  "diagonal_mapping = [(''D1'', [(''OX'', 4)]), (''D2'', [(''K'', 8)])]"


text \<open>
  Collaborators for the examples: a generator that completes the user's mapping in two
  ways, a conversion stage with one evaluation, a sub-pipeline with one result.
\<close>

definition example_generator ::
  "LayerNode \<Rightarrow> Accelerator \<Rightarrow> SpatialMapping \<Rightarrow> bool \<Rightarrow> SpatialMapping list" where
  "example_generator lay acc provided_mapping mix =
     [provided_mapping @ [(''D2'', [(''K'', 8)])], provided_mapping @ [(''D2'', [(''K'', 4)])]]"

definition example_conversion ::
  "accelerator_ref \<Rightarrow> LayerNode \<Rightarrow> (nat CostModelEvaluation \<times> nat) list" where
  "example_conversion used lay = [(\<lparr>accelerator_cme = used, evaluation = 0\<rparr>, 0)]"

definition example_stage :: SpatialMappingGeneratorStage where
  "example_stage =
     \<lparr>accelerator = shared_rf_accelerator, layer = conv_layer,
      enable_mix_spatial_mapping_generation = False, maximize_hardware_utilization = True,
      enable_weight_diagonal_mapping = True\<rparr>"

definition full_mapping_stage :: SpatialMappingGeneratorStage where
  "full_mapping_stage =
     example_stage\<lparr>layer := conv_layer\<lparr>user_spatial_mapping := diagonal_mapping\<rparr>\<rparr>"

text \<open>
  The stage of the sum of two activations, a layer without a constant operand, with a
  user mapping that has both dimensions of the array.
\<close>

definition add_stage :: SpatialMappingGeneratorStage where
  "add_stage =
     example_stage\<lparr>layer := add_layer\<lparr>user_spatial_mapping := diagonal_mapping\<rparr>\<rparr>"







definition example_node_data :: node_data where
  "example_node_data = \<lparr>id_node = 3, operand_source = [(''W'', 3), (''I'', 2)]\<rparr>"

section \<open>Properties of the overlap-size arithmetic\<close>

text \<open>
  For \<open>sa = sb = 1\<close>, within the exact range of binary64, the result is
  \<open>A + B - 1\<close>.
\<close>

lemma calc_pr_dimension_size_unit_scaling:
  "binary64_exact 1 A 1 B \<Longrightarrow> 1 \<le> B \<Longrightarrow> calc_pr_dimension_size 1 A 1 B = Inr (A + B - 1)"
  by (simp add: calc_pr_dimension_size_def algebra_simps)

text \<open>
  Claim C1.  The claim is that for positive \<open>sa\<close>, \<open>A\<close>, \<open>sb\<close>, \<open>B\<close> the function
  returns the number of distinct values of \<open>sa * a + sb * b\<close>.  The code misses the
  case \<open>A < sb / gcd\<close> with \<open>B > sa / gcd\<close>: the second factor of the subtracted product
  is negative there and is not clamped at zero.  For \<open>sa = 2\<close>, \<open>A = 2\<close>, \<open>sb = 3\<close>,
  \<open>B = 3\<close> the six index pairs give the six distinct values 0, 2, 3, 5, 6, 8, and the
  function returns 7, more than there are pairs.
\<close>

theorem calc_pr_dimension_size_overcounts:
  "calc_pr_dimension_size 2 2 3 3 = Inr 7 \<and> count_unique 2 2 3 3 = 6"
  by code_simp

text \<open>
  Claim C8.  The claim is that swapping the two generator pairs does not change the
  result.  The clamp \<open>max(0, _)\<close> is on the first factor only, so the formula is not
  symmetric: for stride 1 over 2 positions and step 3 over 2 positions the function
  returns 5, and 4 with the pairs swapped.
\<close>

theorem calc_pr_dimension_size_swap_differs:
  "calc_pr_dimension_size 1 2 3 2 = Inr 5 \<and> calc_pr_dimension_size 3 2 1 2 = Inr 4"
  by (simp add: calc_pr_dimension_size_def)

text \<open>
  Claim C9, as stated: a call with \<open>sa = 0\<close> or \<open>sb = 0\<close> is rejected with an error.
  It is false: \<open>gcd(0, 3) = 3\<close>, nothing divides by zero, and the call returns 2.
\<close>

theorem calc_pr_dimension_size_one_zero_factor_accepted:
  "calc_pr_dimension_size 0 2 3 2 = Inr 2"
  by (simp add: calc_pr_dimension_size_def)

text \<open>
  Claim C9, amended: the call is rejected (with \<open>ZeroDivisionError\<close>, the only error it
  has within the exact range of binary64) exactly when both scaling factors are zero;
  with one zero scaling factor it returns a value.
\<close>

theorem calc_pr_dimension_size_rejects_iff_both_zero:
  assumes "binary64_exact sa A sb B"
  shows "(calc_pr_dimension_size sa A sb B = Inl ZeroDivisionError) = (sa = 0 \<and> sb = 0)
       \<and> (\<exists>v. calc_pr_dimension_size sa A sb B = Inr v) = (sa \<noteq> 0 \<or> sb \<noteq> 0)"
  by (simp add: calc_pr_dimension_size_def)

theorem calc_pr_dimension_size_rejects_iff_both_zero_witness:
  "binary64_exact 0 2 0 2 \<and> calc_pr_dimension_size 0 2 0 2 = Inl ZeroDivisionError
   \<and> binary64_exact 0 2 3 2 \<and> (\<exists>v. calc_pr_dimension_size 0 2 3 2 = Inr v)"
proof -
  have a: "binary64_exact 0 2 0 2" and b: "binary64_exact 0 2 3 2"
    by (simp_all add: binary64_exact_def)
  show ?thesis
    using a b calc_pr_dimension_size_rejects_iff_both_zero [OF a]
      calc_pr_dimension_size_rejects_iff_both_zero [OF b]
    by simp
qed


section \<open>Properties of the partially relevant dimension sizes\<close>

lemma calc_pr_dimension_size_totals_lookup:
  "calc_pr_dimension_size_totals self dims = Inr sizes \<Longrightarrow> dim \<in> set dims
   \<Longrightarrow> dict_get sizes dim = calc_pr_dimension_size_total self dim"
proof (induction dims arbitrary: sizes)
  case Nil
  then show ?case by simp
next
  case (Cons d dims)
  then show ?case
    by (auto simp: dict_get_def split: sum.splits)
qed

text \<open>
  For a partially relevant dimension \<open>dim\<close> with the generator dimensions \<open>d1\<close>, \<open>d2\<close>
  of sizes \<open>A\<close>, \<open>B\<close> and the recorded scaling factors \<open>sa\<close>, \<open>sb\<close>,
  \<open>calc_pr_dimension_size_total\<close> is \<open>calc_pr_dimension_size sa A sb B\<close> minus the sum
  of the padding of \<open>dim\<close>, which is \<open>(0, 0)\<close> when \<open>dim\<close> has none; and this is the
  size that a layer constructed without \<open>pr_loop_dim_size\<close> records for \<open>dim\<close>.
\<close>

lemma calc_pr_dimension_size_total_unfold:
  assumes "binary64_exact sa A sb B"
    and "dict_get (pr_loop self) dim = Inr [d1, d2]"
    and "dict_get (pr_scaling_factors self) dim = Inr [(k1, sa), (k2, sb)]"
    and "dict_get (loop_dim_size self) d1 = Inr A"
    and "dict_get (loop_dim_size self) d2 = Inr B"
    and "dict_get_default (padding self) dim [0, 0] = [pad_before, pad_after]"
  shows "calc_pr_dimension_size_total self dim =
           (case calc_pr_dimension_size sa A sb B of
              Inl e \<Rightarrow> Inl e
            | Inr count \<Rightarrow> Inr (count - (pad_before + pad_after)))
       \<and> (init_pr_loop_dim_size self None = Inr sizes
            \<longrightarrow> dict_get sizes dim = calc_pr_dimension_size_total self dim)"
proof
  show "calc_pr_dimension_size_total self dim =
           (case calc_pr_dimension_size sa A sb B of
              Inl e \<Rightarrow> Inl e
            | Inr count \<Rightarrow> Inr (count - (pad_before + pad_after)))"
    using assms(2-6)
    by (simp add: calc_pr_dimension_size_total_def dict_values_def split: sum.splits)
next
  have "map_of (pr_loop self) dim = Some [d1, d2]"
    using assms(2) by (simp add: dict_get_def split: option.splits)
  then have "(dim, [d1, d2]) \<in> set (pr_loop self)"
    by (rule map_of_SomeD)
  then have "fst (dim, [d1, d2]) \<in> fst ` set (pr_loop self)"
    by (rule imageI)
  then have "dim \<in> set (dict_keys (pr_loop self))"
    by (simp add: dict_keys_def)
  then show "init_pr_loop_dim_size self None = Inr sizes
       \<longrightarrow> dict_get sizes dim = calc_pr_dimension_size_total self dim"
    by (simp add: init_pr_loop_dim_size_def calc_pr_dimension_size_totals_lookup)
qed

text \<open>
  The relation \<open>ix = 1*ox + 1*fx\<close> with \<open>OX = 4\<close> and \<open>FX = 3\<close>: the total is 6
  without padding and with the padding \<open>(0, 0)\<close>, and 4 with the padding \<open>(1, 1)\<close>;
  6 is also the number of distinct values of \<open>ox + fx\<close>.
\<close>

lemma calc_pr_dimension_size_total_unit_stride:
  "calc_pr_dimension_size_total conv_layer ''IX'' = Inr 6
   \<and> calc_pr_dimension_size_total (conv_layer\<lparr>padding := [(''IX'', [0, 0])]\<rparr>) ''IX'' = Inr 6
   \<and> calc_pr_dimension_size_total (conv_layer\<lparr>padding := [(''IX'', [1, 1])]\<rparr>) ''IX'' = Inr 4
   \<and> count_unique 1 4 1 3 = 6"
  by code_simp

text \<open>
  Claim C4.  The claim is that the total of a partially relevant dimension is the
  number of distinct values of \<open>sa * a + sb * b\<close> over the full sizes of its two
  generator dimensions, minus the padding.  The total is \<open>calc_pr_dimension_size\<close> minus
  the padding, and \<open>calc_pr_dimension_size\<close> does not clamp its second factor.  For the
  relation \<open>ix=2*ox+3*fx\<close> with \<open>OX = 2\<close>, \<open>FX = 3\<close> and no padding,
  \<open>extract_pr_loop_info\<close> records the scaling factors 2 and 3, the total is 7, and 7 is
  the size that the constructor records for \<open>IX\<close>; the distinct values of
  \<open>2 * ox + 3 * fx\<close> are 0, 2, 3, 5, 6, 8, six of them.
\<close>

theorem calc_pr_dimension_size_total_overcounts:
  "(case extract_pr_loop_info dilated_relations of
      Inl e \<Rightarrow> Inl e
    | Inr (pl, pll, sf) \<Rightarrow> Inr (pl, sf))
   = Inr (pr_loop dilated_layer, pr_scaling_factors dilated_layer)
   \<and> getitems (loop_dim_size dilated_layer) [''OX'', ''FX''] = Inr [2, 3]
   \<and> dict_get_default (padding dilated_layer) ''IX'' [0, 0] = [0, 0]
   \<and> calc_pr_dimension_size_total dilated_layer ''IX'' = Inr 7
   \<and> init_pr_loop_dim_size dilated_layer None = Inr [(''IX'', 7)]
   \<and> int (count_unique 2 2 3 3) - (0 + 0) = 6"
  by code_simp

section \<open>Properties of the relevance classification\<close>

text \<open>
  Claim C2.  The claim is that no dimension of size 1 is in an operand's relevant or
  irrelevant list.  For an operand with a partially relevant dimension the relevant
  list is filtered by \<open>pr_loop_list\<close> only: the test of the size is commented out
  there, while the irrelevant list of the same operand and both lists of the other
  operands have it.  In the convolution \<open>O[b][k][ox]+=W[k][fx]*I[b][ix]\<close> with
  \<open>B = 1\<close> and the relation \<open>ix=1*ox+1*fx\<close>, the constructor's calls give the
  attributes of \<open>conv_layer\<close>, and the relevant list of \<open>I\<close> is \<open>[B]\<close>.
\<close>

theorem extract_r_ir_loop_info_keeps_size_1_dimension:
  "(case extract_pr_loop_info conv_relations of
      Inl e \<Rightarrow> Inl e
    | Inr (pl, pll, sf) \<Rightarrow>
       (case extract_r_ir_loop_info conv_equation conv_sizes pl pll of
          Inl e \<Rightarrow> Inl e
        | Inr (old, reformed, ops, order) \<Rightarrow> Inr (pl, sf, old)))
   = Inr (pr_loop conv_layer, pr_scaling_factors conv_layer, operand_loop_dim conv_layer)
   \<and> dict_get conv_sizes ''B'' = Inr 1
   \<and> map_option loops_R (map_of (operand_loop_dim conv_layer) ''I'') = Some [''B'']"
  by code_simp

section \<open>Properties of the layer factory\<close>

lemma distinct_map_inj: "distinct xs \<Longrightarrow> inj f \<Longrightarrow> distinct (map f xs)"
  by (auto simp: distinct_map inj_on_def)

lemma create_layer_operand_inj: "inj create_layer_operand"
  by (simp add: inj_def create_layer_operand_def)

lemma create_operand_source_keys: "map fst (create_operand_source nd)
      = map create_layer_operand (map fst (filter (\<lambda>(k, s). s \<noteq> id_node nd) (operand_source nd)))"
  by (simp add: create_operand_source_def case_prod_unfold comp_def)

lemma operand_source_filter_distinct: "distinct (map fst (operand_source nd)) \<Longrightarrow> distinct (map fst (filter (\<lambda>(k, s). s \<noteq> id_node nd) (operand_source nd)))"
  by (rule distinct_map_filter)

lemma create_operand_source_distinct: "distinct (map fst (operand_source nd)) \<Longrightarrow> distinct (map fst (create_operand_source nd))"
  unfolding create_operand_source_keys
  by (rule distinct_map_inj [OF operand_source_filter_distinct create_layer_operand_inj])


lemma dict_value_unique: "distinct (map fst xs) \<Longrightarrow> (k, s) \<in> set xs \<Longrightarrow> (k, s') \<in> set xs \<Longrightarrow> s = s'"
  by (rule eq_key_imp_eq_value)


lemma constant_operand_iff:
  assumes "distinct (map fst (operand_source nd))" and "(op, source) \<in> set (operand_source nd)"
  shows "(create_layer_operand op \<in> set (create_constant_operands nd)) = (source = id_node nd)"
proof
  assume "create_layer_operand op \<in> set (create_constant_operands nd)"
  then obtain k s where ks: "(k, s) \<in> set (operand_source nd)" and s: "s = id_node nd"
    and k: "create_layer_operand k = create_layer_operand op"
    by (auto simp: create_constant_operands_def)
  from k have "k = op" by (simp add: create_layer_operand_def)
  with ks have "(op, s) \<in> set (operand_source nd)" by simp
  with assms have "source = s" by (rule eq_key_imp_eq_value)
  with s show "source = id_node nd" by simp
next
  assume "source = id_node nd"
  with assms(2) have "(op, source) \<in> set (filter (\<lambda>(op, source). source = id_node nd) (operand_source nd))"
    by simp
  then have "op \<in> set (map fst (filter (\<lambda>(op, source). source = id_node nd) (operand_source nd)))"
    by (force simp del: set_filter)
  then have "create_layer_operand op \<in> create_layer_operand `
      set (map fst (filter (\<lambda>(op, source). source = id_node nd) (operand_source nd)))"
    by (rule imageI)
  then show "create_layer_operand op \<in> set (create_constant_operands nd)"
    by (simp only: create_constant_operands_def set_map)
qed

lemma operand_source_key_iff:
  assumes "distinct (map fst (operand_source nd))" and "(op, source) \<in> set (operand_source nd)"
  shows "(create_layer_operand op \<in> set (dict_keys (create_operand_source nd))) = (source \<noteq> id_node nd)"
proof
  assume "create_layer_operand op \<in> set (dict_keys (create_operand_source nd))"
  then obtain k s where ks: "(k, s) \<in> set (operand_source nd)" and s: "s \<noteq> id_node nd"
    and k: "create_layer_operand k = create_layer_operand op"
    by (auto simp: create_operand_source_def dict_keys_def)
  from k have "k = op" by (simp add: create_layer_operand_def)
  with ks have "(op, s) \<in> set (operand_source nd)" by simp
  with assms have "source = s" by (rule eq_key_imp_eq_value)
  with s show "source \<noteq> id_node nd" by simp
next
  assume "source \<noteq> id_node nd"
  with assms(2) have "(create_layer_operand op, source) \<in> set (create_operand_source nd)"
    by (force simp: create_operand_source_def)
  then have "create_layer_operand op \<in> fst ` set (create_operand_source nd)"
    by (rule image_eqI [rotated]) simp
  then show "create_layer_operand op \<in> set (dict_keys (create_operand_source nd))"
    by (simp add: dict_keys_def)
qed

lemma operand_source_entry_iff:
  assumes "(op, source) \<in> set (operand_source nd)"
  shows "((create_layer_operand op, source) \<in> set (create_operand_source nd)) = (source \<noteq> id_node nd)"
  using assms
  by (auto simp: create_operand_source_def create_layer_operand_def)

lemma operand_source_lookup_iff:
  assumes "distinct (map fst (operand_source nd))" and "(op, source) \<in> set (operand_source nd)"
  shows "(map_of (create_operand_source nd) (create_layer_operand op) = Some source) = (source \<noteq> id_node nd)"
  by (simp only: map_of_eq_Some_iff [OF create_operand_source_distinct [OF assms(1)]] operand_source_entry_iff [OF assms(2)])


lemma operands_cover:
  "set (create_constant_operands nd) \<union> set (dict_keys (create_operand_source nd))
     = create_layer_operand ` set (dict_keys (operand_source nd))"
proof (rule set_eqI, rule iffI)
  fix x
  assume "x \<in> set (create_constant_operands nd) \<union> set (dict_keys (create_operand_source nd))"
  then obtain k s where ks: "(k, s) \<in> set (operand_source nd)" and x: "x = create_layer_operand k"
    by (auto simp: dict_keys_def create_operand_source_def create_constant_operands_def)
  from ks have "fst (k, s) \<in> fst ` set (operand_source nd)"
    by (rule imageI)
  then have "k \<in> set (dict_keys (operand_source nd))"
    by (simp add: dict_keys_def)
  then show "x \<in> create_layer_operand ` set (dict_keys (operand_source nd))"
    unfolding x by (rule imageI)
next
  fix x
  assume "x \<in> create_layer_operand ` set (dict_keys (operand_source nd))"
  then obtain k s where ks: "(k, s) \<in> set (operand_source nd)" and x: "x = create_layer_operand k"
    by (auto simp: dict_keys_def)
  show "x \<in> set (create_constant_operands nd) \<union> set (dict_keys (create_operand_source nd))"
  proof (cases "s = id_node nd")
    case True
    then have "x \<in> set (create_constant_operands nd)"
      using ks x by (force simp: create_constant_operands_def)
    then show ?thesis by simp
  next
    case False
    then have "(x, s) \<in> set (create_operand_source nd)"
      using ks x by (force simp: create_operand_source_def)
    then have "x \<in> set (dict_keys (create_operand_source nd))"
      by (force simp: dict_keys_def)
    then show ?thesis by simp
  qed
qed


text \<open>
  Claim C10.  For every entry \<open>(op, source)\<close> of the dictionary \<open>operand_source\<close>: the
  operand is a constant operand exactly when \<open>source\<close> is the layer's id, it is a key
  of \<open>input_operand_source\<close>, with the same source, exactly when \<open>source\<close> is not the
  layer's id, and the two results together hold the operands of \<open>operand_source\<close> and
  no other.
\<close>

theorem create_operands_partition:
  assumes "distinct (dict_keys (operand_source nd))"
    and "(op, source) \<in> set (operand_source nd)"
  shows "(create_layer_operand op \<in> set (create_constant_operands nd)) = (source = id_node nd)
     \<and> (map_of (create_operand_source nd) (create_layer_operand op) = Some source) = (source \<noteq> id_node nd)
     \<and> (create_layer_operand op \<in> set (dict_keys (create_operand_source nd))) = (source \<noteq> id_node nd)
     \<and> set (create_constant_operands nd) \<union> set (dict_keys (create_operand_source nd))
         = create_layer_operand ` set (dict_keys (operand_source nd))"
proof -
  have d: "distinct (map fst (operand_source nd))"
    using assms(1) by (simp only: dict_keys_def)
  show ?thesis
    using constant_operand_iff [OF d assms(2)] operand_source_lookup_iff [OF d assms(2)] operand_source_key_iff [OF d assms(2)] operands_cover [of nd]
    by (intro conjI)
qed


text \<open>A layer with the id 3 whose weights are its own and whose input comes from layer 2.\<close>

theorem create_operands_partition_witness:
  "distinct (dict_keys (operand_source example_node_data))
   \<and> create_constant_operands example_node_data = [LayerOperand ''W'']
   \<and> create_operand_source example_node_data = [(LayerOperand ''I'', 2)]
   \<and> create_layer_operand ''W'' \<in> set (create_constant_operands example_node_data)
   \<and> map_of (create_operand_source example_node_data) (create_layer_operand ''I'') = Some 2
   \<and> create_layer_operand ''W'' \<notin> set (dict_keys (create_operand_source example_node_data))"
proof -
  have d: "distinct (dict_keys (operand_source example_node_data))"
    by (simp add: example_node_data_def dict_keys_def)
  have w: "(''W'', 3) \<in> set (operand_source example_node_data)"
    and i: "(''I'', 2) \<in> set (operand_source example_node_data)"
    by (simp_all add: example_node_data_def)
  have idn: "id_node example_node_data = 3"
    by (simp add: example_node_data_def)
  have e1: "create_constant_operands example_node_data = [LayerOperand ''W'']"
    and e2: "create_operand_source example_node_data = [(LayerOperand ''I'', 2)]"
    by (simp_all add: example_node_data_def create_constant_operands_def
        create_operand_source_def create_layer_operand_def)
  from create_operands_partition [OF d w] have a: "create_layer_operand ''W'' \<in> set (create_constant_operands example_node_data)"
    and b: "create_layer_operand ''W'' \<notin> set (dict_keys (create_operand_source example_node_data))"
    by (simp_all only: idn simp_thms)
  from create_operands_partition [OF d i] have c: "map_of (create_operand_source example_node_data) (create_layer_operand ''I'') = Some 2"
    by (simp add: idn)
  show ?thesis using d e1 e2 a b c by (intro conjI)
qed


section \<open>Properties of the diagonal-mapping adapter\<close>

text \<open>
  Claim C5.  The claim is that the adapter returns the accelerator it was given, and
  never raises, for a layer that does not have exactly one constant operand.  The
  check of the source is \<open>len(self.layer.constant_operands) > 1\<close>: a layer without a
  constant operand, such as the sum of two activations, passes it, and
  \<open>self.layer.constant_operands[0]\<close> raises \<open>IndexError\<close>.
\<close>

theorem modify_innermost_input_mem_size_no_constant_operand:
  "constant_operands add_layer = []
   \<and> raised (modify_innermost_input_mem_size shared_rf_accelerator add_layer (Some 1)
               diagonal_mapping) = Some IndexError"
  by code_simp

text \<open>
  Claim C6.  The claim is that the size of the innermost activation memory alone is
  multiplied, and that every other level keeps its size.  The source multiplies the size
  in the \<open>MemoryInstance\<close> object of the level before it copies the object for the new
  hierarchy; a level further down \<open>mem_level_list\<close> that is built on the same object
  copies the multiplied size.  In \<open>shared_rf_core\<close> the register files of \<open>I1\<close> and
  \<open>I2\<close> are one object of size 8; with \<open>OX\<close> unrolled 4 times along \<open>D1\<close> both come
  out with size 32, the weights' register file too.
\<close>

theorem modify_innermost_input_mem_size_scales_shared_instance:
  "adapted_sizes (modify_innermost_input_mem_size shared_rf_accelerator conv_layer (Some 1)
                    diagonal_mapping)
   = [[([''I1''], 32), ([''I2''], 32), ([''I1'', ''I2'', ''O''], 524288)]]
   \<and> map (\<lambda>l. (operands l, size_mi (objects (memory_hierarchy shared_rf_core) (memory_instance l))))
         (mem_level_list (memory_hierarchy shared_rf_core))
   = [([''I1''], 8), ([''I2''], 8), ([''I1'', ''I2'', ''O''], 524288)]"
  by code_simp


section \<open>Properties of the stage of the spatial mappings\<close>

lemma launch_all_candidates:
  assumes "enable_weight_diagonal_mapping self \<longrightarrow>
     list_all (\<lambda>usm. raised (modify_innermost_input_mem_size (accelerator self)
                  ((layer self)\<lparr>user_spatial_mapping := usm\<rparr>) (core_allocation (layer self)) usm) = None)
       cands"
  shows "snd (launch_all conversion self cands) = None
     \<and> map launched_mapping (fst (launch_all conversion self cands)) = cands
     \<and> list_all (\<lambda>l. user_spatial_mapping (launched_layer l) = launched_mapping l
                    \<and> map snd (yielded l)
                        = map (\<lambda>(cme, extra_info). (launched_mapping l, extra_info))
                            (conversion (launched_accelerator l) (launched_layer l)))
          (fst (launch_all conversion self cands))"
  using assms
proof (induction cands arbitrary: self)
  case Nil
  then show ?case by simp
next
  case (Cons usm rest)
  let ?lay = "(layer self)\<lparr>user_spatial_mapping := usm\<rparr>"
  let ?self1 = "self\<lparr>layer := ?lay\<rparr>"
  have pre: "enable_weight_diagonal_mapping ?self1 \<longrightarrow>
     list_all (\<lambda>usm. raised (modify_innermost_input_mem_size (accelerator ?self1)
                  ((layer ?self1)\<lparr>user_spatial_mapping := usm\<rparr>) (core_allocation (layer ?self1)) usm) = None)
       rest"
    using Cons.prems by simp
  note ih = Cons.IH [OF pre]
  obtain updated new_acc where ok:
    "(if enable_weight_diagonal_mapping self
      then modify_innermost_input_mem_size (accelerator self) ?lay (core_allocation ?lay) usm
      else Inr (False, Original (accelerator self))) = Inr (updated, new_acc)"
  proof (cases "enable_weight_diagonal_mapping self")
    case True
    with Cons.prems have "raised (modify_innermost_input_mem_size (accelerator self) ?lay
        (core_allocation (layer self)) usm) = None"
      by simp
    then obtain r where "modify_innermost_input_mem_size (accelerator self) ?lay
        (core_allocation (layer self)) usm = Inr r"
      by (cases "modify_innermost_input_mem_size (accelerator self) ?lay
        (core_allocation (layer self)) usm") simp_all
    with True that show ?thesis by (cases r) simp
  next
    case False
    with that show ?thesis by simp
  qed
  obtain launches err where rec: "launch_all conversion ?self1 rest = (launches, err)"
    by (cases "launch_all conversion ?self1 rest")
  from ih rec have err: "err = None" and maps: "map launched_mapping launches = rest"
    and alls: "list_all (\<lambda>l. user_spatial_mapping (launched_layer l) = launched_mapping l
                    \<and> map snd (yielded l)
                        = map (\<lambda>(cme, extra_info). (launched_mapping l, extra_info))
                            (conversion (launched_accelerator l) (launched_layer l)))
          launches"
    by simp_all
  show ?case
    using ok rec err maps alls
    by (simp add: Let_def case_prod_unfold comp_def)
qed

text \<open>
  A run that no exception cuts short.  On a layer whose core is in the accelerator, and
  with \<open>enable_weight_diagonal_mapping\<close> unset or an adapter that raises nothing on the
  candidates, the run launches the conversion stage once for each candidate mapping, in
  order, and ends without an error: the candidates are the user's mapping alone when it
  has every dimension of the core's operational array, and otherwise the mappings of
  the generator.  Each launch gets the layer with the candidate as its mapping, and
  each result of the conversion stage is yielded with the candidate.
\<close>

lemma SpatialMappingGeneratorStage_run_launches:
  assumes "get_core (accelerator self) (core_allocation (layer self)) = Inr core"
    and "enable_weight_diagonal_mapping self \<longrightarrow>
     list_all (\<lambda>usm. raised (modify_innermost_input_mem_size (accelerator self)
                  ((layer self)\<lparr>user_spatial_mapping := usm\<rparr>) (core_allocation (layer self)) usm) = None)
       (candidate_mappings generator self core)"
  shows "(let launches = fst (SpatialMappingGeneratorStage_run generator conversion self)
          in snd (SpatialMappingGeneratorStage_run generator conversion self) = None
           \<and> map launched_mapping launches =
               (if list_all (\<lambda>x. x \<in> set (dict_keys (user_spatial_mapping (layer self))))
                     (dimensions (operational_array core))
                then [user_spatial_mapping (layer self)]
                else generator (layer self) (accelerator self) (user_spatial_mapping (layer self))
                       (enable_mix_spatial_mapping_generation self))
           \<and> list_all (\<lambda>l. user_spatial_mapping (launched_layer l) = launched_mapping l
                    \<and> map snd (yielded l)
                        = map (\<lambda>(cme, extra_info). (launched_mapping l, extra_info))
                            (conversion (launched_accelerator l) (launched_layer l)))
                launches)"
proof -
  have run: "SpatialMappingGeneratorStage_run generator conversion self
      = launch_all conversion self (candidate_mappings generator self core)"
    using assms(1) by (simp add: SpatialMappingGeneratorStage_run_def)
  have cands: "candidate_mappings generator self core =
               (if list_all (\<lambda>x. x \<in> set (dict_keys (user_spatial_mapping (layer self))))
                     (dimensions (operational_array core))
                then [user_spatial_mapping (layer self)]
                else generator (layer self) (accelerator self) (user_spatial_mapping (layer self))
                       (enable_mix_spatial_mapping_generation self))"
    by (simp add: candidate_mappings_def Let_def)
  from launch_all_candidates [OF assms(2), of conversion]
  show ?thesis
    unfolding Let_def run cands [symmetric] .
qed

text \<open>
  A stage whose user mapping has \<open>D1\<close> of the dimensions \<open>D1\<close>, \<open>D2\<close> launches the two
  mappings of the generator; with both dimensions in the user mapping it launches that
  mapping alone.
\<close>

lemma SpatialMappingGeneratorStage_run_launches_examples:
  "get_core (accelerator example_stage) (core_allocation (layer example_stage)) = Inr shared_rf_core
   \<and> enable_weight_diagonal_mapping example_stage
   \<and> map launched_mapping (fst (SpatialMappingGeneratorStage_run example_generator example_conversion example_stage))
       = [[(''D1'', [(''OX'', 4)]), (''D2'', [(''K'', 8)])], [(''D1'', [(''OX'', 4)]), (''D2'', [(''K'', 4)])]]
   \<and> snd (SpatialMappingGeneratorStage_run example_generator example_conversion example_stage) = None
   \<and> map launched_mapping (fst (SpatialMappingGeneratorStage_run example_generator example_conversion full_mapping_stage))
       = [diagonal_mapping]"
proof -
  have a: "get_core (accelerator example_stage) (core_allocation (layer example_stage)) = Inr shared_rf_core"
    by (simp add: example_stage_def shared_rf_accelerator_def conv_layer_def get_core_def
        shared_rf_core_def)
  have a': "get_core (accelerator full_mapping_stage) (core_allocation (layer full_mapping_stage)) = Inr shared_rf_core"
    by (simp add: full_mapping_stage_def example_stage_def shared_rf_accelerator_def conv_layer_def get_core_def
        shared_rf_core_def)
  have b: "enable_weight_diagonal_mapping example_stage \<longrightarrow>
     list_all (\<lambda>usm. raised (modify_innermost_input_mem_size (accelerator example_stage)
                  ((layer example_stage)\<lparr>user_spatial_mapping := usm\<rparr>) (core_allocation (layer example_stage)) usm) = None)
       (candidate_mappings example_generator example_stage shared_rf_core)"
    by code_simp
  have b': "enable_weight_diagonal_mapping full_mapping_stage \<longrightarrow>
     list_all (\<lambda>usm. raised (modify_innermost_input_mem_size (accelerator full_mapping_stage)
                  ((layer full_mapping_stage)\<lparr>user_spatial_mapping := usm\<rparr>) (core_allocation (layer full_mapping_stage)) usm) = None)
       (candidate_mappings example_generator full_mapping_stage shared_rf_core)"
    by code_simp
  have c: "enable_weight_diagonal_mapping example_stage"
    by (simp add: example_stage_def)
  have d: "\<not> list_all (\<lambda>x. x \<in> set (dict_keys (user_spatial_mapping (layer example_stage))))
                     (dimensions (operational_array shared_rf_core))"
    by code_simp
  have d': "list_all (\<lambda>x. x \<in> set (dict_keys (user_spatial_mapping (layer full_mapping_stage))))
                     (dimensions (operational_array shared_rf_core))"
    by code_simp
  have g: "example_generator (layer example_stage) (accelerator example_stage)
             (user_spatial_mapping (layer example_stage))
             (enable_mix_spatial_mapping_generation example_stage)
       = [[(''D1'', [(''OX'', 4)]), (''D2'', [(''K'', 8)])], [(''D1'', [(''OX'', 4)]), (''D2'', [(''K'', 4)])]]"
    by code_simp
  have h: "user_spatial_mapping (layer full_mapping_stage) = diagonal_mapping"
    by (simp add: full_mapping_stage_def)
  from SpatialMappingGeneratorStage_run_launches [OF a b, of example_conversion] SpatialMappingGeneratorStage_run_launches [OF a' b', of example_conversion]
    a c d d' g h
  show ?thesis
    by (simp add: Let_def)
qed

text \<open>
  Claim C3.  The claim is that a run on a layer whose user mapping has every dimension
  of the array processes that one mapping and yields its results.  With
  \<open>enable_weight_diagonal_mapping\<close> set, the loop calls the adapter before it makes the
  conversion stage, and the adapter raises \<open>IndexError\<close> on a layer without a constant
  operand (the check is \<open>len(self.layer.constant_operands) > 1\<close>, while the comment
  above it says to keep the mapping of a layer that is not weight stationary).  In
  \<open>add_stage\<close> the core of the layer is in the accelerator and the user mapping has
  both dimensions of its array, so the mapping is the one candidate; the run ends with
  \<open>IndexError\<close> and has launched nothing.
\<close>

theorem SpatialMappingGeneratorStage_run_full_mapping_raises:
  "enable_weight_diagonal_mapping add_stage
   \<and> constant_operands (layer add_stage) = []
   \<and> (case get_core (accelerator add_stage) (core_allocation (layer add_stage)) of
         Inl e \<Rightarrow> False
       | Inr core \<Rightarrow>
           list_all (\<lambda>x. x \<in> set (dict_keys (user_spatial_mapping (layer add_stage))))
             (dimensions (operational_array core))
           \<and> candidate_mappings example_generator add_stage core
               = [user_spatial_mapping (layer add_stage)])
   \<and> map launched_mapping
         (fst (SpatialMappingGeneratorStage_run example_generator example_conversion add_stage)) = []
   \<and> snd (SpatialMappingGeneratorStage_run example_generator example_conversion add_stage)
       = Some IndexError"
  by code_simp

section \<open>Properties of the stage of the workload\<close>







end
